theory Spec2Isabelle
  imports Complex_Main "HOL-Library.Word"
begin

section \<open>The session protocol engine of the audio connector\<close>

text \<open>
  A shallow embedding of the class \<open>Session\<close> (websocket/session.ts). One value of the
  record \<open>Session\<close> is the content of the object's fields; every method is a function
  from the session before the call to the session after it. The effects on the outside
  world are kept as logs inside the objects that receive them: the frames handed to
  \<open>ws.send\<close>, the number of calls of \<open>ws.close\<close>, the requests made to the bot and the
  inputs fed to a capture engine. Sequence numbers are JavaScript numbers that start at 0
  and grow by one; they are modelled as unbounded integers (the doubles are exact below
  \<open>2^53\<close>). Calls of \<open>console.log\<close> are left out.
\<close>

subsection \<open>Protocol data\<close>

type_synonym byte = "8 word"
type_synonym JsonStringMap = "(string \<times> string) list"
type_synonym BotTurnDisposition = string
type_synonym DisconnectReason = string

text \<open>\<open>BotResponse\<close> (services/bot-service.ts): \<open>text\<close> (here \<open>text_str\<close>) is always set, the other
  three fields are optional (\<open>None\<close> is JavaScript's \<open>undefined\<close>).\<close>

record BotResponse =
  disposition :: BotTurnDisposition
  text_str :: string
  confidence :: "real option"
  audioBytes :: "byte list option"
  endSession :: "bool option"

text \<open>The entities of an event message and the parameters of the three kinds of
  server message that \<open>Session\<close> builds.\<close>

datatype EventEntity =
  EventEntityBargeIn
| EventEntityBotTurnResponse BotTurnDisposition "string option" "real option"

datatype parameters =
  EventParameters "EventEntity list"
| DisconnectParameters DisconnectReason string JsonStringMap
| ClosedParameters

record ServerMessage =
  m_id :: string
  m_version :: string
  m_seq :: int
  m_clientseq :: int
  m_type :: string
  m_parameters :: parameters

text \<open>The fields of a client message that \<open>processTextMessage\<close> reads. The argument of
  \<open>processTextMessage\<close> is the outcome of \<open>JSON.parse(data)\<close>: a syntax error or a message.\<close>

record ClientMessage =
  c_id :: string
  c_seq :: int
  c_serverseq :: int
  c_type :: string

datatype json = Unparsable | Message ClientMessage

datatype js_error = SyntaxError | TypeError | TransportError

subsection \<open>The transport\<close>

text \<open>What the session does to its WebSocket: the frames given to \<open>ws.send\<close>, in order
  (a text frame holds the message that \<open>JSON.stringify\<close> serialises), and the number of
  calls of \<open>ws.close\<close>. Whether \<open>ws.close\<close> throws is the transport's business;
  \<open>closeThrows\<close> says what it does, and \<open>ws_close\<close> returns the exception with the socket.\<close>

datatype frame = Text ServerMessage | Binary "byte list"

record WebSocket =
  sent :: "frame list"
  closeCalls :: nat
  closeThrows :: bool

definition ws_send :: "frame \<Rightarrow> WebSocket \<Rightarrow> WebSocket" where
  "ws_send f w = w\<lparr>sent := sent w @ [f]\<rparr>"

definition ws_close :: "WebSocket \<Rightarrow> WebSocket \<times> js_error option" where
  "ws_close w =
     (w\<lparr>closeCalls := closeCalls w + 1\<rparr>,
      if closeThrows w then Some TransportError else None)"

definition new_WebSocket :: "bool \<Rightarrow> WebSocket" where
  "new_WebSocket throws = \<lparr>sent = [], closeCalls = 0, closeThrows = throws\<rparr>"

subsection \<open>The collaborators\<close>

text \<open>Modelled from the spec: the capture engines \<open>ASRService\<close> and \<open>DTMFService\<close>
  (services/asr-service.ts and services/dtmf-service.ts are not part of the sources at
  hand). An engine is a small state machine Idle, Capturing, Complete, whose \<open>getState\<close>
  the session compares with \<open>'Complete'\<close>; it starts Idle, captures once it has been fed,
  and is Complete when it has emitted its result. The inputs it was fed are kept with it.\<close>

datatype engine_state = Idle | Capturing | Complete

record 'a engine =
  getState :: engine_state
  fed :: "'a list"

text \<open>Modelled from the spec: \<open>new ASRService()\<close>, \<open>new DTMFService()\<close>, an engine
  that is Idle and was fed nothing.\<close>

definition new_engine :: "'a engine" where
  "new_engine = \<lparr>getState = Idle, fed = []\<rparr>"

text \<open>Modelled from the spec: \<open>processAudio(bytes)\<close>, \<open>processDigit(digit)\<close>, after
  which the engine is capturing. The session never feeds an engine that is Complete.\<close>

definition feed :: "'a \<Rightarrow> 'a engine \<Rightarrow> 'a engine" where
  "feed x e = e\<lparr>getState := Capturing, fed := fed e @ [x]\<rparr>"

text \<open>Modelled from the spec: the engine reaches Complete when it emits its result.\<close>

definition complete :: "'a engine \<Rightarrow> 'a engine" where
  "complete e = e\<lparr>getState := Complete\<rparr>"

text \<open>Modelled from the spec: an engine is live while the session holds it and it is
  capturing.\<close>

definition live :: "'a engine option \<Rightarrow> bool" where
  "live eo = (case eo of None \<Rightarrow> False | Some e \<Rightarrow> getState e = Capturing)"

text \<open>The bot (\<open>BotResource\<close>, services/bot-service.ts) answers asynchronously; the
  session only starts a request. The requests are logged in the resource.\<close>

datatype bot_request = GetInitialResponse | GetBotResponse string

record BotResource =
  requests :: "bot_request list"

definition new_BotResource :: BotResource where
  "new_BotResource = \<lparr>requests = []\<rparr>"

subsection \<open>The session\<close>

text \<open>The fields of \<open>Session\<close>. \<open>selectedMedia\<close> is left out: its type is declared
  outside the sources at hand and no method reads it. The handler registry is a parameter
  of \<open>processTextMessage\<close>.\<close>

record Session =
  disconnecting :: bool
  closed :: bool
  ws :: WebSocket
  asrService :: "byte list engine option"
  dtmfService :: "string engine option"
  url :: string
  clientSessionId :: string
  conversationId :: "string option"
  lastServerSequenceNumber :: int
  lastClientSequenceNumber :: int
  inputVariables :: JsonStringMap
  selectedBot :: "BotResource option"
  isCapturingDTMF :: bool
  isAudioPlaying :: bool

definition MAXIMUM_BINARY_MESSAGE_SIZE :: nat where
  "MAXIMUM_BINARY_MESSAGE_SIZE = 64000"

text \<open>The constructor.\<close>

definition new_Session :: "WebSocket \<Rightarrow> string \<Rightarrow> string \<Rightarrow> Session" where
  "new_Session w sessionId u =
     \<lparr>disconnecting = False, closed = False, ws = w, asrService = None,
      dtmfService = None, url = u, clientSessionId = sessionId, conversationId = None,
      lastServerSequenceNumber = 0, lastClientSequenceNumber = 0, inputVariables = [],
      selectedBot = None, isCapturingDTMF = False, isAudioPlaying = False\<rparr>"

text \<open>\<open>close\<close>: the \<open>catch\<close> block is empty, so both outcomes of \<open>ws.close\<close>
  continue with \<open>closed = true\<close>.\<close>

definition close :: "Session \<Rightarrow> Session" where
  "close s =
     (if closed s then s
      else (case ws_close (ws s) of
              (w, Some exn) \<Rightarrow> s\<lparr>ws := w, closed := True\<rparr>
            | (w, None) \<Rightarrow> s\<lparr>ws := w, closed := True\<rparr>))"

definition setConversationId :: "string \<Rightarrow> Session \<Rightarrow> Session" where
  "setConversationId c s = s\<lparr>conversationId := Some c\<rparr>"

definition setInputVariables :: "JsonStringMap \<Rightarrow> Session \<Rightarrow> Session" where
  "setInputVariables v s = s\<lparr>inputVariables := v\<rparr>"

definition setIsAudioPlaying :: "bool \<Rightarrow> Session \<Rightarrow> Session" where
  "setIsAudioPlaying b s = s\<lparr>isAudioPlaying := b\<rparr>"

text \<open>\<open>createMessage\<close> returns the message and the session with the incremented
  counter (\<open>++this.lastServerSequenceNumber\<close>).\<close>

definition createMessage :: "string \<Rightarrow> parameters \<Rightarrow> Session \<Rightarrow> ServerMessage \<times> Session" where
  "createMessage type params s =
     (let s' = s\<lparr>lastServerSequenceNumber := lastServerSequenceNumber s + 1\<rparr>
      in (\<lparr>m_id = clientSessionId s', m_version = ''2'',
           m_seq = lastServerSequenceNumber s',
           m_clientseq = lastClientSequenceNumber s',
           m_type = type, m_parameters = params\<rparr>, s'))"

text \<open>\<open>send\<close>: the log line reads the first entity of an event message, and every
  event message that the session builds has one.\<close>

definition send :: "ServerMessage \<Rightarrow> Session \<Rightarrow> Session" where
  "send message s = s\<lparr>ws := ws_send (Text message) (ws s)\<rparr>"

text \<open>\<open>bytes.slice(from, to)\<close> for \<open>0 \<le> from \<le> to\<close>, clamped to the array as in
  JavaScript.\<close>

definition slice :: "'a list \<Rightarrow> nat \<Rightarrow> nat \<Rightarrow> 'a list" where
  "slice bytes from to = take (to - from) (drop from bytes)"

text \<open>The \<open>while\<close> loop of \<open>sendAudio\<close>, with \<open>currentPosition\<close> as its variable.\<close>

function sendAudio_loop :: "byte list \<Rightarrow> nat \<Rightarrow> Session \<Rightarrow> Session" where
  "sendAudio_loop bytes currentPosition s =
     (if currentPosition < length bytes
      then let sendBytes = slice bytes currentPosition
                             (currentPosition + MAXIMUM_BINARY_MESSAGE_SIZE)
           in sendAudio_loop bytes (currentPosition + MAXIMUM_BINARY_MESSAGE_SIZE)
                (s\<lparr>ws := ws_send (Binary sendBytes) (ws s)\<rparr>)
      else s)"
  by pat_completeness auto
termination
  by (relation "measure (\<lambda>(bytes, currentPosition, s). length bytes - currentPosition)")
     (auto simp: MAXIMUM_BINARY_MESSAGE_SIZE_def)

declare sendAudio_loop.simps [simp del]

definition sendAudio :: "byte list \<Rightarrow> Session \<Rightarrow> Session" where
  "sendAudio bytes s =
     (if length bytes \<le> MAXIMUM_BINARY_MESSAGE_SIZE
      then s\<lparr>ws := ws_send (Binary bytes) (ws s)\<rparr>
      else sendAudio_loop bytes 0 s)"

definition sendBargeIn :: "Session \<Rightarrow> Session" where
  "sendBargeIn s =
     (case createMessage ''event'' (EventParameters [EventEntityBargeIn]) s of
        (message, s') \<Rightarrow> send message s')"

definition sendTurnResponse ::
  "BotTurnDisposition \<Rightarrow> string option \<Rightarrow> real option \<Rightarrow> Session \<Rightarrow> Session" where
  "sendTurnResponse disp txt conf s =
     (case createMessage ''event''
             (EventParameters [EventEntityBotTurnResponse disp txt conf]) s of
        (message, s') \<Rightarrow> send message s')"

definition sendDisconnect ::
  "DisconnectReason \<Rightarrow> string \<Rightarrow> JsonStringMap \<Rightarrow> Session \<Rightarrow> Session" where
  "sendDisconnect reason info outputVariables s =
     (case createMessage ''disconnect''
             (DisconnectParameters reason info outputVariables)
             (s\<lparr>disconnecting := True\<rparr>) of
        (message, s') \<Rightarrow> send message s')"

definition sendClosed :: "Session \<Rightarrow> Session" where
  "sendClosed s =
     (case createMessage ''closed'' ClosedParameters s of
        (message, s') \<Rightarrow> send message s')"

text \<open>\<open>processTextMessage\<close>. The registry of message handlers
  (message-handlers/message-handler-registry.ts, not part of the sources at hand) is the
  parameter \<open>getHandler\<close>; a handler gets the message and the session. The second
  component of the result is the message that was handed to a handler, if any.\<close>

type_synonym MessageHandler = "ClientMessage \<Rightarrow> Session \<Rightarrow> Session"
type_synonym MessageHandlerRegistry = "string \<Rightarrow> MessageHandler option"

definition processTextMessage ::
  "MessageHandlerRegistry \<Rightarrow> json \<Rightarrow> Session \<Rightarrow> js_error + Session \<times> ClientMessage option" where
  "processTextMessage getHandler data s =
     (if closed s then Inr (s, None)
      else (case data of
        Unparsable \<Rightarrow> Inl SyntaxError
      | Message message \<Rightarrow>
          (if c_seq message \<noteq> lastClientSequenceNumber s + 1
           then Inr (sendDisconnect ''error'' ''Invalid client sequence number.'' [] s, None)
           else (let s1 = s\<lparr>lastClientSequenceNumber := c_seq message\<rparr> in
             (if c_serverseq message > lastServerSequenceNumber s1
              then Inr (sendDisconnect ''error'' ''Invalid server sequence number.'' [] s1, None)
              else (if c_id message \<noteq> clientSessionId s1
                then Inr (sendDisconnect ''error'' ''Invalid ID specified.'' [] s1, None)
                else (case getHandler (c_type message) of
                        None \<Rightarrow> Inr (s1, None)
                      | Some handler \<Rightarrow> Inr (handler message s1, Some message))))))))"

definition checkIfBotExists :: "Session \<Rightarrow> Session" where
  "checkIfBotExists s = s\<lparr>selectedBot := Some new_BotResource\<rparr>"

text \<open>A request to the bot: \<open>this.selectedBot!.getBotResponse(..)\<close> raises a TypeError
  when no bot is selected.\<close>

definition bot_request :: "bot_request \<Rightarrow> Session \<Rightarrow> js_error + Session" where
  "bot_request r s =
     (case selectedBot s of
        None \<Rightarrow> Inl TypeError
      | Some botr \<Rightarrow> Inr (s\<lparr>selectedBot := Some (botr\<lparr>requests := requests botr @ [r]\<rparr>)\<rparr>))"

text \<open>\<open>processBotStart\<close> and the callback of its promise.\<close>

definition processBotStart :: "Session \<Rightarrow> Session" where
  "processBotStart s =
     (case selectedBot s of
        None \<Rightarrow> s
      | Some botr \<Rightarrow> s\<lparr>selectedBot := Some (botr\<lparr>requests := requests botr @ [GetInitialResponse]\<rparr>)\<rparr>)"

definition initialResponse_then :: "BotResponse \<Rightarrow> Session \<Rightarrow> Session" where
  "initialResponse_then response s =
     (let s1 = (if text_str response \<noteq> []
                then sendTurnResponse (disposition response) (Some (text_str response))
                       (confidence response) s
                else s);
          s2 = (case audioBytes response of
                  Some bytes \<Rightarrow> sendAudio bytes s1
                | None \<Rightarrow> s1)
      in s2)"

text \<open>The callbacks that \<open>processBinaryMessage\<close> registers on a new speech engine, and
  the callback of the bot's promise. They refer to the session only, and run whenever the
  engine or the promise fires.\<close>

definition asr_on_error :: "Session \<Rightarrow> Session" where
  "asr_on_error s =
     (if isCapturingDTMF s then s
      else sendDisconnect ''error'' ''Error during Speech Recognition.'' [] s)"

definition asr_on_final_transcript :: "string \<Rightarrow> Session \<Rightarrow> js_error + Session" where
  "asr_on_final_transcript transcript_text s =
     (if isCapturingDTMF s then Inr s
      else bot_request (GetBotResponse transcript_text) s)"

definition asr_response_then :: "BotResponse \<Rightarrow> Session \<Rightarrow> Session" where
  "asr_response_then response s =
     (let s1 = (if text_str response \<noteq> []
                then sendTurnResponse (disposition response) (Some (text_str response))
                       (confidence response) s
                else s);
          s2 = (case audioBytes response of
                  Some bytes \<Rightarrow> sendAudio bytes s1
                | None \<Rightarrow> s1);
          s3 = (if endSession response = Some True
                then sendDisconnect ''completed'' [] [] s2
                else s2)
      in s3)"

definition processBinaryMessage :: "byte list \<Rightarrow> Session \<Rightarrow> Session" where
  "processBinaryMessage data s =
     (if disconnecting s \<or> closed s \<or> selectedBot s = None then s
      else if isCapturingDTMF s then s
      else if isAudioPlaying s then s\<lparr>asrService := None, dtmfService := None\<rparr>
      else let asr = (case asrService s of
                        None \<Rightarrow> new_engine
                      | Some e \<Rightarrow> if getState e = Complete then new_engine else e)
           in s\<lparr>asrService := Some (feed data asr)\<rparr>)"

text \<open>The callbacks that \<open>processDTMF\<close> registers on a new digit engine.\<close>

definition dtmf_on_error :: "Session \<Rightarrow> Session" where
  "dtmf_on_error s = sendDisconnect ''error'' ''Error during DTMF Capture.'' [] s"

definition dtmf_on_final_digits :: "string \<Rightarrow> Session \<Rightarrow> js_error + Session" where
  "dtmf_on_final_digits digits s = bot_request (GetBotResponse digits) s"

definition dtmf_response_then :: "BotResponse \<Rightarrow> Session \<Rightarrow> Session" where
  "dtmf_response_then response s =
     (let s1 = (if text_str response \<noteq> []
                then sendTurnResponse (disposition response) (Some (text_str response))
                       (confidence response) s
                else s);
          s2 = (case audioBytes response of
                  Some bytes \<Rightarrow> sendAudio bytes s1
                | None \<Rightarrow> s1);
          s3 = (if endSession response = Some True
                then sendDisconnect ''completed'' [] [] s2
                else s2)
      in s3\<lparr>isCapturingDTMF := False\<rparr>)"

definition processDTMF :: "string \<Rightarrow> Session \<Rightarrow> Session" where
  "processDTMF digit s =
     (if disconnecting s \<or> closed s \<or> selectedBot s = None then s
      else if isAudioPlaying s then s\<lparr>asrService := None, dtmfService := None\<rparr>
      else let s1 = (if \<not> isCapturingDTMF s
                     then s\<lparr>isCapturingDTMF := True, asrService := None\<rparr>
                     else s);
               dtmf = (case dtmfService s1 of
                         None \<Rightarrow> new_engine
                       | Some e \<Rightarrow> if getState e = Complete then new_engine else e)
           in s1\<lparr>dtmfService := Some (feed digit dtmf)\<rparr>)"

subsection \<open>Runs of a session\<close>

text \<open>Everything that can happen to a session on its connection's task: a call of one
  of its methods (by the connection handler or by a message handler; \<open>createMessage\<close>
  and \<open>send\<close> are called through the four sending methods), the transition of the engine
  it holds to Complete, and the firing of a callback that it registered on an engine or
  on a promise of the bot. A callback may fire at any time, also after its engine was
  discarded; an engine that emits its result reaches Complete and calls its callback,
  which is two events in a row. An exception ends the call; the methods that can raise do
  so before they change the session.\<close>

datatype event =
  Closes
| SetsConversationId string
| SetsInputVariables JsonStringMap
| SetsIsAudioPlaying bool
| TextMessage json
| SendsBargeIn
| SendsClosed
| ChecksIfBotExists
| BotStarts
| InitialResponse BotResponse
| BinaryMessage "byte list"
| AsrCompletes
| AsrError
| AsrFinalTranscript string
| AsrResponse BotResponse
| DTMFDigit string
| DtmfCompletes
| DtmfError
| DtmfFinalDigits string
| DtmfResponse BotResponse

fun fire :: "MessageHandlerRegistry \<Rightarrow> event \<Rightarrow> Session \<Rightarrow> Session" where
  "fire getHandler Closes s = close s"
| "fire getHandler (SetsConversationId c) s = setConversationId c s"
| "fire getHandler (SetsInputVariables v) s = setInputVariables v s"
| "fire getHandler (SetsIsAudioPlaying b) s = setIsAudioPlaying b s"
| "fire getHandler (TextMessage data) s =
     (case processTextMessage getHandler data s of
        Inl exn \<Rightarrow> s
      | Inr (s', routed) \<Rightarrow> s')"
| "fire getHandler SendsBargeIn s = sendBargeIn s"
| "fire getHandler SendsClosed s = sendClosed s"
| "fire getHandler ChecksIfBotExists s = checkIfBotExists s"
| "fire getHandler BotStarts s = processBotStart s"
| "fire getHandler (InitialResponse response) s = initialResponse_then response s"
| "fire getHandler (BinaryMessage data) s = processBinaryMessage data s"
| "fire getHandler AsrCompletes s = s\<lparr>asrService := map_option complete (asrService s)\<rparr>"
| "fire getHandler AsrError s = asr_on_error s"
| "fire getHandler (AsrFinalTranscript t) s =
     (case asr_on_final_transcript t s of Inl exn \<Rightarrow> s | Inr s' \<Rightarrow> s')"
| "fire getHandler (AsrResponse response) s = asr_response_then response s"
| "fire getHandler (DTMFDigit digit) s = processDTMF digit s"
| "fire getHandler DtmfCompletes s = s\<lparr>dtmfService := map_option complete (dtmfService s)\<rparr>"
| "fire getHandler DtmfError s = dtmf_on_error s"
| "fire getHandler (DtmfFinalDigits digits) s =
     (case dtmf_on_final_digits digits s of Inl exn \<Rightarrow> s | Inr s' \<Rightarrow> s')"
| "fire getHandler (DtmfResponse response) s = dtmf_response_then response s"

fun run :: "MessageHandlerRegistry \<Rightarrow> event list \<Rightarrow> Session \<Rightarrow> Session" where
  "run getHandler [] s = s"
| "run getHandler (e # es) s = run getHandler es (fire getHandler e s)"

subsection \<open>What the peer sees\<close>

text \<open>The messages among the frames sent, their sequence numbers, and the property that
  these are 1, 2, 3, ... up to the counter of the session.\<close>

fun envelopes :: "frame list \<Rightarrow> ServerMessage list" where
  "envelopes [] = []"
| "envelopes (Text m # fs) = m # envelopes fs"
| "envelopes (Binary b # fs) = envelopes fs"

definition outbound_seqs :: "Session \<Rightarrow> int list" where
  "outbound_seqs s = map m_seq (envelopes (sent (ws s)))"

definition dense :: "Session \<Rightarrow> bool" where
  "dense s = (0 \<le> lastServerSequenceNumber s \<and>
              outbound_seqs s = [1..lastServerSequenceNumber s])"

text \<open>The slices that the loop of \<open>sendAudio\<close> cuts, from a position on.\<close>

function chunks :: "'a list \<Rightarrow> nat \<Rightarrow> 'a list list" where
  "chunks bytes pos =
     (if pos < length bytes
      then slice bytes pos (pos + MAXIMUM_BINARY_MESSAGE_SIZE)
             # chunks bytes (pos + MAXIMUM_BINARY_MESSAGE_SIZE)
      else [])"
  by pat_completeness auto
termination
  by (relation "measure (\<lambda>(bytes, pos). length bytes - pos)")
     (auto simp: MAXIMUM_BINARY_MESSAGE_SIZE_def)

declare chunks.simps [simp del]

subsection \<open>Concrete data for runs\<close>

text \<open>A registry with one handler, which answers a message of type \<open>close\<close> with
  \<open>sendClosed\<close>; it stands for the registry of the program in the concrete runs below.\<close>

definition example_registry :: MessageHandlerRegistry where
  "example_registry type =
     (if type = ''close'' then Some (\<lambda>message s. sendClosed s) else None)"

text \<open>A new session on a new socket, the same session once a bot is selected, replies
  of the bot (\<open>example_reply\<close> is what \<open>getBotResponse\<close> builds: text, confidence and
  audio, no \<open>endSession\<close>; \<open>final_reply\<close> ends the session), and client messages with a
  given \<open>seq\<close> and \<open>serverseq\<close>.\<close>

definition fresh :: Session where
  "fresh = new_Session (new_WebSocket False) ''id'' ''u''"

definition started :: Session where
  "started = checkIfBotExists fresh"

definition example_reply :: BotResponse where
  "example_reply =
     \<lparr>disposition = ''match'', text_str = ''hello'', confidence = Some 1,
      audioBytes = Some [1, 2, 3], endSession = None\<rparr>"

definition final_reply :: BotResponse where
  "final_reply =
     \<lparr>disposition = ''match'', text_str = ''hello'', confidence = Some 1,
      audioBytes = Some [1, 2, 3], endSession = Some True\<rparr>"

definition envelope :: "int \<Rightarrow> int \<Rightarrow> ClientMessage" where
  "envelope n k = \<lparr>c_id = ''id'', c_seq = n, c_serverseq = k, c_type = ''close''\<rparr>"

text \<open>A run in which the bot is asked for a reply to a transcript and, before it
  answers, a message with a wrong sequence number makes the session disconnect.\<close>

definition stale_run :: "event list" where
  "stale_run =
     [ChecksIfBotExists, BinaryMessage [0], AsrCompletes, AsrFinalTranscript ''hi'',
      TextMessage (Message (envelope 5 0))]"

text \<open>A run in which a second digit capture starts while the bot's reply to the first
  one is pending: the first digit engine completes and hands over its digits, the next
  digit creates a new engine, then the reply arrives, then an audio frame.\<close>

definition race_run :: "event list" where
  "race_run =
     [ChecksIfBotExists, DTMFDigit ''1'', DtmfCompletes, DtmfFinalDigits ''1'',
      DTMFDigit ''2'', DtmfResponse example_reply, BinaryMessage [0]]"

text \<open>The session \<open>s'\<close> is \<open>s\<close> after one more frame was sent, a disconnect message
  with reason \<open>error\<close> that carries the next sequence number and acknowledges the
  \<open>lastClientSequenceNumber\<close> of \<open>s'\<close>, and \<open>disconnecting\<close> is set.\<close>

definition error_disconnect :: "Session \<Rightarrow> Session \<Rightarrow> bool" where
  "error_disconnect s s' =
     (\<exists>info. sent (ws s') = sent (ws s) @
        [Text \<lparr>m_id = clientSessionId s, m_version = ''2'',
                m_seq = lastServerSequenceNumber s + 1,
                m_clientseq = lastClientSequenceNumber s', m_type = ''disconnect'',
                m_parameters = DisconnectParameters ''error'' info []\<rparr>] \<and>
        lastServerSequenceNumber s' = lastServerSequenceNumber s + 1 \<and>
        disconnecting s')"

section \<open>Shutdown\<close>

text \<open>
  C8. \<open>close\<close> is idempotent: a second call changes nothing, so two calls leave the
  session and the transport as one call does. The \<open>closed\<close> flag guards the call of
  \<open>ws.close\<close>: on a closed session \<open>close\<close> does nothing, on an open one it calls
  \<open>ws.close\<close> exactly once, and two calls in a row call it once. Whether \<open>ws.close\<close>
  throws or not, \<open>close\<close> returns with \<open>closed\<close> set: the exception does not escape.
\<close>

theorem close_idempotent:
  "close (close s) = close s \<and>
   closed (close s) \<and>
   close (s\<lparr>closed := True\<rparr>) = s\<lparr>closed := True\<rparr> \<and>
   closeCalls (ws (close (s\<lparr>closed := False\<rparr>))) = closeCalls (ws s) + 1 \<and>
   closeCalls (ws (close (close (s\<lparr>closed := False\<rparr>)))) = closeCalls (ws s) + 1 \<and>
   closed (close (s\<lparr>closed := False, ws := (ws s)\<lparr>closeThrows := True\<rparr>\<rparr>))"
  by (simp add: close_def ws_close_def)

theorem close_idempotent_witness:
  "close (close (new_Session (new_WebSocket True) ''id'' ''u''))
     = close (new_Session (new_WebSocket True) ''id'' ''u'') \<and>
   closeCalls (ws (close (close (new_Session (new_WebSocket True) ''id'' ''u'')))) = 1"
  using close_idempotent [of "new_Session (new_WebSocket True) ''id'' ''u''"]
  by (simp add: new_Session_def new_WebSocket_def)

section \<open>Outbound audio chunking\<close>

text \<open>The loop sends the slices that \<open>chunks\<close> lists, and nothing else.\<close>

lemma loop_chunks:
  "sendAudio_loop bytes pos s = s\<lparr>ws := (ws s)\<lparr>sent := sent (ws s) @ map Binary (chunks bytes pos)\<rparr>\<rparr>"
proof (induction bytes pos s rule: sendAudio_loop.induct)
  case (1 bytes pos s)
  show ?case
  proof (cases "pos < length bytes")
    case True
    then show ?thesis
      using 1 [OF True refl]
      by (subst sendAudio_loop.simps, subst chunks.simps) (simp add: ws_send_def Let_def)
  next
    case False
    then show ?thesis
      by (subst sendAudio_loop.simps, subst chunks.simps) simp
  qed
qed

lemma chunks_step:
  "pos < length bytes \<Longrightarrow>
   chunks bytes pos = take MAXIMUM_BINARY_MESSAGE_SIZE (drop pos bytes)
                        # chunks bytes (pos + MAXIMUM_BINARY_MESSAGE_SIZE)"
  by (subst chunks.simps) (simp add: slice_def)

lemma chunks_stop: "\<not> pos < length bytes \<Longrightarrow> chunks bytes pos = []"
  by (subst chunks.simps) simp

lemma concat_chunks: "concat (chunks bytes pos) = drop pos bytes"
proof (induction bytes pos rule: chunks.induct)
  case (1 bytes pos)
  show ?case
  proof (cases "pos < length bytes")
    case True
    have "concat (chunks bytes pos) = take MAXIMUM_BINARY_MESSAGE_SIZE (drop pos bytes) @ drop (pos + MAXIMUM_BINARY_MESSAGE_SIZE) bytes"
      using 1 [OF True] True by (simp add: chunks_step)
    also have "\<dots> = drop pos bytes"
      by (metis add.commute append_take_drop_id drop_drop)
    finally show ?thesis .
  next
    case False
    then show ?thesis by (simp add: chunks_stop)
  qed
qed

lemma chunks_bounded: "f \<in> set (chunks bytes pos) \<Longrightarrow> length f \<le> MAXIMUM_BINARY_MESSAGE_SIZE"
proof (induction bytes pos rule: chunks.induct)
  case (1 bytes pos)
  show ?case
  proof (cases "pos < length bytes")
    case True
    with 1 show ?thesis by (auto simp: chunks_step)
  next
    case False
    with 1 show ?thesis by (simp add: chunks_stop)
  qed
qed

lemma chunks_full: "f \<in> set (butlast (chunks bytes pos)) \<Longrightarrow> length f = MAXIMUM_BINARY_MESSAGE_SIZE"
proof (induction bytes pos rule: chunks.induct)
  case (1 bytes pos)
  show ?case
  proof (cases "pos < length bytes")
    case True
    note step = chunks_step [OF True]
    show ?thesis
    proof (cases "pos + MAXIMUM_BINARY_MESSAGE_SIZE < length bytes")
      case more: True
      then have "chunks bytes (pos + MAXIMUM_BINARY_MESSAGE_SIZE) \<noteq> []"
        by (simp add: chunks_step)
      with 1 True more show ?thesis
        by (auto simp: step)
    next
      case False
      then have "chunks bytes (pos + MAXIMUM_BINARY_MESSAGE_SIZE) = []"
        by (simp add: chunks_stop)
      with 1 show ?thesis by (simp add: step)
    qed
  next
    case False
    with 1 show ?thesis by (simp add: chunks_stop)
  qed
qed

lemma suc_div_step:
  fixes n p :: nat
  assumes "p < n"
  shows "Suc ((n - (p + 64000) + 63999) div 64000) = (n - p + 63999) div 64000"
proof (cases "p + 64000 \<le> n")
  case True
  then have a: "(n - p + 63999) - 64000 = n - (p + 64000) + 63999" by linarith
  have b: "(64000::nat) \<le> n - p + 63999" using True by linarith
  have "(n - p + 63999) div 64000 = Suc ((n - p + 63999 - 64000) div 64000)"
    using b by (intro le_div_geq) auto
  then show ?thesis unfolding a by (rule sym)
next
  case False
  then have z: "n - (p + 64000) = 0" by linarith
  have lo: "64000 * 1 \<le> n - p + 63999" using assms by linarith
  have "n - p + 63999 < 128000" using False by linarith
  then have hi: "n - p + 63999 < 64000 * Suc 1" by simp
  have "(n - p + 63999) div 64000 = 1"
    using lo hi by (rule div_nat_eqI)
  moreover have "(63999::nat) div 64000 = 0" by (rule div_less) linarith
  ultimately show ?thesis unfolding z by simp
qed


lemma ceil_div: "nat \<lceil>real n / 64000\<rceil> = (n + 63999) div 64000"
proof -
  define q where "q = (n + 63999) div 64000"
  define r where "r = (n + 63999) mod 64000"
  have "n + 63999 = 64000 * q + r"
    unfolding q_def r_def by (rule mult_div_mod_eq [symmetric])
  then have eq: "real n + 63999 = 64000 * real q + real r"
    by (metis of_nat_add of_nat_mult of_nat_numeral)
  have "r < 64000" unfolding r_def by (rule mod_less_divisor) simp
  then have "r \<le> 63999" by linarith
  then have r: "real r \<le> 63999" by (metis of_nat_le_iff of_nat_numeral)
  have "real_of_int (int q) - 1 < real n / 64000" using eq by simp
  moreover have "real n / 64000 \<le> real_of_int (int q)" using eq r by simp
  ultimately have "\<lceil>real n / 64000\<rceil> = int q" by (rule ceiling_unique)
  then show ?thesis unfolding q_def by simp
qed

lemma length_chunks:
  "length (chunks bytes pos) =
     (length bytes - pos + (MAXIMUM_BINARY_MESSAGE_SIZE - 1)) div MAXIMUM_BINARY_MESSAGE_SIZE"
proof (induction bytes pos rule: chunks.induct)
  case (1 bytes pos)
  show ?case
  proof (cases "pos < length bytes")
    case True
    have "length (chunks bytes pos) = Suc ((length bytes - (pos + 64000) + 63999) div 64000)"
      using 1 [OF True] by (simp add: chunks_step [OF True] MAXIMUM_BINARY_MESSAGE_SIZE_def)
    also have "\<dots> = (length bytes - pos + 63999) div 64000"
      using True by (rule suc_div_step)
    finally show ?thesis by (simp add: MAXIMUM_BINARY_MESSAGE_SIZE_def)
  next
    case False
    then show ?thesis by (simp add: chunks_stop MAXIMUM_BINARY_MESSAGE_SIZE_def)
  qed
qed


lemma chunks_150000:
  assumes "length bytes = 150000"
  shows "map length (chunks bytes 0) = [64000, 64000, 22000]"
proof -
  have "chunks bytes 0 = take 64000 (drop 0 bytes) # chunks bytes 64000"
    using assms chunks_step [of 0 bytes] by (simp add: MAXIMUM_BINARY_MESSAGE_SIZE_def)
  moreover have "chunks bytes 64000 = take 64000 (drop 64000 bytes) # chunks bytes 128000"
    using assms chunks_step [of 64000 bytes] by (simp add: MAXIMUM_BINARY_MESSAGE_SIZE_def)
  moreover have "chunks bytes 128000 = take 64000 (drop 128000 bytes) # chunks bytes 192000"
    using assms chunks_step [of 128000 bytes] by (simp add: MAXIMUM_BINARY_MESSAGE_SIZE_def)
  moreover have "chunks bytes 192000 = []"
    using assms chunks_stop [of 192000 bytes] by simp
  ultimately show ?thesis using assms by simp
qed

text \<open>
  C5. \<open>sendAudio b\<close> changes nothing but the transport, to which it sends binary frames
  only. A payload of at most 64000 bytes goes out as the one frame \<open>b\<close>. A longer one
  goes out as \<open>ceil (length b / 64000)\<close> frames, none longer than 64000 bytes, all but the
  last of exactly 64000 bytes, whose concatenation in the order sent is \<open>b\<close>. A payload
  of 150000 bytes goes out as frames of 64000, 64000 and 22000 bytes.
\<close>

theorem sendAudio_chunking:
  "\<exists>fs. sendAudio b s = s\<lparr>ws := (ws s)\<lparr>sent := sent (ws s) @ map Binary fs\<rparr>\<rparr> \<and>
     (length b \<le> MAXIMUM_BINARY_MESSAGE_SIZE \<longrightarrow> fs = [b]) \<and>
     (MAXIMUM_BINARY_MESSAGE_SIZE < length b \<longrightarrow>
        length fs = nat \<lceil>real (length b) / real MAXIMUM_BINARY_MESSAGE_SIZE\<rceil> \<and>
        (\<forall>f \<in> set fs. length f \<le> MAXIMUM_BINARY_MESSAGE_SIZE) \<and>
        (\<forall>f \<in> set (butlast fs). length f = MAXIMUM_BINARY_MESSAGE_SIZE) \<and>
        concat fs = b) \<and>
     (length b = 150000 \<longrightarrow> map length fs = [64000, 64000, 22000])"
proof (cases "length b \<le> MAXIMUM_BINARY_MESSAGE_SIZE")
  case True
  then have "sendAudio b s = s\<lparr>ws := (ws s)\<lparr>sent := sent (ws s) @ map Binary [b]\<rparr>\<rparr>"
    by (simp add: sendAudio_def ws_send_def)
  moreover have "length b \<noteq> 150000"
    using True by (simp add: MAXIMUM_BINARY_MESSAGE_SIZE_def)
  ultimately show ?thesis
    using True by (intro exI [where x = "[b]"]) simp
next
  case False
  then have "sendAudio b s = s\<lparr>ws := (ws s)\<lparr>sent := sent (ws s) @ map Binary (chunks b 0)\<rparr>\<rparr>"
    by (simp add: sendAudio_def loop_chunks)
  moreover have "length (chunks b 0) = nat \<lceil>real (length b) / real MAXIMUM_BINARY_MESSAGE_SIZE\<rceil>"
    using length_chunks [of b 0] ceil_div [of "length b"]
    by (simp add: MAXIMUM_BINARY_MESSAGE_SIZE_def)
  moreover have "\<forall>f \<in> set (chunks b 0). length f \<le> MAXIMUM_BINARY_MESSAGE_SIZE"
    using chunks_bounded by blast
  moreover have "\<forall>f \<in> set (butlast (chunks b 0)). length f = MAXIMUM_BINARY_MESSAGE_SIZE"
    using chunks_full by blast
  moreover have "concat (chunks b 0) = b"
    by (simp add: concat_chunks)
  moreover have "length b = 150000 \<longrightarrow> map length (chunks b 0) = [64000, 64000, 22000]"
    using chunks_150000 by blast
  ultimately show ?thesis
    using False by (intro exI [where x = "chunks b 0"]) simp
qed




theorem sendAudio_chunking_witness:
  "\<exists>fs. sent (ws (sendAudio (replicate 150000 0)
                (new_Session (new_WebSocket False) ''id'' ''u''))) = map Binary fs \<and>
        map length fs = [64000, 64000, 22000] \<and>
        concat fs = replicate 150000 0"
proof -
  let ?b = "replicate 150000 (0 :: byte)"
  let ?s = "new_Session (new_WebSocket False) ''id'' ''u''"
  have len: "length ?b = 150000" by (rule length_replicate)
  have big: "MAXIMUM_BINARY_MESSAGE_SIZE < length ?b"
    unfolding len MAXIMUM_BINARY_MESSAGE_SIZE_def by simp
  from sendAudio_chunking [of ?b ?s]
  obtain fs where
    fs: "sendAudio ?b ?s = ?s\<lparr>ws := (ws ?s)\<lparr>sent := sent (ws ?s) @ map Binary fs\<rparr>\<rparr>"
      "MAXIMUM_BINARY_MESSAGE_SIZE < length ?b \<longrightarrow>
         length fs = nat \<lceil>real (length ?b) / real MAXIMUM_BINARY_MESSAGE_SIZE\<rceil> \<and>
         (\<forall>f \<in> set fs. length f \<le> MAXIMUM_BINARY_MESSAGE_SIZE) \<and>
         (\<forall>f \<in> set (butlast fs). length f = MAXIMUM_BINARY_MESSAGE_SIZE) \<and>
         concat fs = ?b"
      "length ?b = 150000 \<longrightarrow> map length fs = [64000, 64000, 22000]"
    by (elim exE conjE)
  from fs(3) len have a: "map length fs = [64000, 64000, 22000]" by (rule mp)
  from fs(2) big have
    "length fs = nat \<lceil>real (length ?b) / real MAXIMUM_BINARY_MESSAGE_SIZE\<rceil> \<and>
     (\<forall>f \<in> set fs. length f \<le> MAXIMUM_BINARY_MESSAGE_SIZE) \<and>
     (\<forall>f \<in> set (butlast fs). length f = MAXIMUM_BINARY_MESSAGE_SIZE) \<and>
     concat fs = ?b" by (rule mp)
  then have b: "concat fs = ?b" by (elim conjE)
  have "sent (ws (sendAudio ?b ?s))
          = sent (ws (?s\<lparr>ws := (ws ?s)\<lparr>sent := sent (ws ?s) @ map Binary fs\<rparr>\<rparr>))"
    by (rule arg_cong [OF fs(1)])
  also have "\<dots> = map Binary fs"
    by (simp add: new_Session_def new_WebSocket_def)
  finally have c: "sent (ws (sendAudio ?b ?s)) = map Binary fs" .
  from c a b show ?thesis by (intro exI conjI)
qed

section \<open>Sequence numbers of outbound messages\<close>

text \<open>What each sending method does to the session, written out.\<close>

lemma sendBargeIn_eq:
  "sendBargeIn s =
     s\<lparr>lastServerSequenceNumber := lastServerSequenceNumber s + 1,
       ws := (ws s)\<lparr>sent := sent (ws s) @
         [Text \<lparr>m_id = clientSessionId s, m_version = ''2'',
                m_seq = lastServerSequenceNumber s + 1,
                m_clientseq = lastClientSequenceNumber s,
                m_type = ''event'', m_parameters = EventParameters [EventEntityBargeIn]\<rparr>]\<rparr>\<rparr>"
  by (simp add: sendBargeIn_def createMessage_def send_def ws_send_def Let_def)

lemma sendTurnResponse_eq:
  "sendTurnResponse d t c s =
     s\<lparr>lastServerSequenceNumber := lastServerSequenceNumber s + 1,
       ws := (ws s)\<lparr>sent := sent (ws s) @
         [Text \<lparr>m_id = clientSessionId s, m_version = ''2'',
                m_seq = lastServerSequenceNumber s + 1,
                m_clientseq = lastClientSequenceNumber s,
                m_type = ''event'',
                m_parameters = EventParameters [EventEntityBotTurnResponse d t c]\<rparr>]\<rparr>\<rparr>"
  by (simp add: sendTurnResponse_def createMessage_def send_def ws_send_def Let_def)

lemma sendDisconnect_eq:
  "sendDisconnect r i v s =
     s\<lparr>disconnecting := True,
       lastServerSequenceNumber := lastServerSequenceNumber s + 1,
       ws := (ws s)\<lparr>sent := sent (ws s) @
         [Text \<lparr>m_id = clientSessionId s, m_version = ''2'',
                m_seq = lastServerSequenceNumber s + 1,
                m_clientseq = lastClientSequenceNumber s,
                m_type = ''disconnect'',
                m_parameters = DisconnectParameters r i v\<rparr>]\<rparr>\<rparr>"
  by (simp add: sendDisconnect_def createMessage_def send_def ws_send_def Let_def)

lemma sendClosed_eq:
  "sendClosed s =
     s\<lparr>lastServerSequenceNumber := lastServerSequenceNumber s + 1,
       ws := (ws s)\<lparr>sent := sent (ws s) @
         [Text \<lparr>m_id = clientSessionId s, m_version = ''2'',
                m_seq = lastServerSequenceNumber s + 1,
                m_clientseq = lastClientSequenceNumber s,
                m_type = ''closed'', m_parameters = ClosedParameters\<rparr>]\<rparr>\<rparr>"
  by (simp add: sendClosed_def createMessage_def send_def ws_send_def Let_def)

lemma sendAudio_frames:
  "\<exists>fs. fs \<noteq> [] \<and> concat fs = b \<and>
        (\<forall>s. sendAudio b s = s\<lparr>ws := (ws s)\<lparr>sent := sent (ws s) @ map Binary fs\<rparr>\<rparr>)"
proof (cases "length b \<le> MAXIMUM_BINARY_MESSAGE_SIZE")
  case True
  then show ?thesis
    by (intro exI [where x = "[b]"]) (simp add: sendAudio_def ws_send_def)
next
  case False
  then have "0 < length b" by linarith
  then have "chunks b 0 \<noteq> []" by (simp only: chunks_step) simp
  with False show ?thesis
    by (intro exI [where x = "chunks b 0"]) (simp add: sendAudio_def loop_chunks concat_chunks)
qed

lemma envelopes_append: "envelopes (xs @ ys) = envelopes xs @ envelopes ys"
  by (induction xs rule: envelopes.induct) simp_all

lemma envelopes_Binary: "envelopes (map Binary fs) = []"
  by (induction fs) simp_all

lemma dense_same:
  "dense s \<Longrightarrow> sent (ws s') = sent (ws s) @ map Binary fs \<Longrightarrow>
   lastServerSequenceNumber s' = lastServerSequenceNumber s \<Longrightarrow> dense s'"
  by (simp add: dense_def outbound_seqs_def envelopes_append envelopes_Binary)

lemma dense_next:
  assumes "dense s"
    and "\<exists>m. sent (ws s') = sent (ws s) @ [Text m] \<and>
             m_seq m = lastServerSequenceNumber s + 1"
    and "lastServerSequenceNumber s' = lastServerSequenceNumber s + 1"
  shows "dense s'"
proof -
  have "[1..lastServerSequenceNumber s + 1]
          = [1..lastServerSequenceNumber s] @ [lastServerSequenceNumber s + 1]"
    using assms(1) upto_rec2 [of 1 "lastServerSequenceNumber s + 1"]
    by (simp add: dense_def)
  then show ?thesis
    using assms by (auto simp: dense_def outbound_seqs_def envelopes_append)
qed

lemma dense_sendBargeIn: "dense s \<Longrightarrow> dense (sendBargeIn s)"
  by (erule dense_next) (simp_all add: sendBargeIn_eq)

lemma dense_sendTurnResponse: "dense s \<Longrightarrow> dense (sendTurnResponse d t c s)"
  by (erule dense_next) (simp_all add: sendTurnResponse_eq)

lemma dense_sendDisconnect: "dense s \<Longrightarrow> dense (sendDisconnect r i v s)"
  by (erule dense_next) (simp_all add: sendDisconnect_eq)

lemma dense_sendClosed: "dense s \<Longrightarrow> dense (sendClosed s)"
  by (erule dense_next) (simp_all add: sendClosed_eq)

lemma dense_sendAudio: "dense s \<Longrightarrow> dense (sendAudio b s)"
proof -
  assume d: "dense s"
  obtain fs where "sendAudio b s = s\<lparr>ws := (ws s)\<lparr>sent := sent (ws s) @ map Binary fs\<rparr>\<rparr>"
    using sendAudio_frames [of b] by blast
  then show ?thesis using dense_same [OF d, of "sendAudio b s" fs] by simp
qed

lemma dense_fields:
  "dense s \<Longrightarrow> sent (ws s') = sent (ws s) \<Longrightarrow>
   lastServerSequenceNumber s' = lastServerSequenceNumber s \<Longrightarrow> dense s'"
  by (simp add: dense_def outbound_seqs_def)

lemma dense_initialResponse_then: "dense s \<Longrightarrow> dense (initialResponse_then r s)"
  by (simp add: initialResponse_then_def Let_def dense_sendTurnResponse dense_sendAudio
      split: option.split)

lemma dense_asr_response_then: "dense s \<Longrightarrow> dense (asr_response_then r s)"
  by (simp add: asr_response_then_def Let_def dense_sendTurnResponse dense_sendAudio
      dense_sendDisconnect split: option.split)

lemma dense_dtmf_response_then: "dense s \<Longrightarrow> dense (dtmf_response_then r s)"
proof -
  assume "dense s"
  then have "dense (asr_response_then r s)" by (rule dense_asr_response_then)
  moreover have "dtmf_response_then r s = (asr_response_then r s)\<lparr>isCapturingDTMF := False\<rparr>"
    by (simp add: dtmf_response_then_def asr_response_then_def Let_def)
  ultimately show ?thesis by (elim dense_fields) simp_all
qed

lemma dense_processTextMessage:
  assumes "\<forall>t h m s. getHandler t = Some h \<longrightarrow> dense s \<longrightarrow> dense (h m s)"
    and "dense s" and "processTextMessage getHandler data s = Inr (s', routed)"
  shows "dense s'"
proof -
  have keep: "dense (s\<lparr>lastClientSequenceNumber := n\<rparr>)" for n
    using assms(2) by (elim dense_fields) simp_all
  show ?thesis
    using assms(1,3) assms(2) keep
    by (auto simp: processTextMessage_def Let_def dense_sendDisconnect
        split: if_splits json.splits option.splits)
qed

lemma dense_fire:
  assumes "\<forall>t h m s. getHandler t = Some h \<longrightarrow> dense s \<longrightarrow> dense (h m s)"
    and "dense s"
  shows "dense (fire getHandler e s)"
proof (cases e)
  case Closes
  have "dense (close s)"
    using assms(2) by (elim dense_fields) (simp_all add: close_def ws_close_def)
  with Closes show ?thesis by simp
next
  case (TextMessage data)
  then show ?thesis
    using dense_processTextMessage [OF assms, of data] assms(2)
    by (simp split: sum.split prod.split)
next
  case (BinaryMessage data)
  have "dense (processBinaryMessage data s)"
    using assms(2) by (elim dense_fields) (simp_all add: processBinaryMessage_def Let_def)
  with BinaryMessage show ?thesis by simp
next
  case (DTMFDigit d)
  have "dense (processDTMF d s)"
    using assms(2) by (elim dense_fields) (simp_all add: processDTMF_def Let_def)
  with DTMFDigit show ?thesis by simp
next
  case (AsrFinalTranscript t)
  have "asr_on_final_transcript t s = Inr s' \<Longrightarrow> dense s'" for s'
    using assms(2)
    by (elim dense_fields)
       (auto simp: asr_on_final_transcript_def bot_request_def split: option.splits if_splits)
  with AsrFinalTranscript assms(2) show ?thesis by (simp split: sum.split)
next
  case (DtmfFinalDigits t)
  have "dtmf_on_final_digits t s = Inr s' \<Longrightarrow> dense s'" for s'
    using assms(2)
    by (elim dense_fields)
       (auto simp: dtmf_on_final_digits_def bot_request_def split: option.splits if_splits)
  with DtmfFinalDigits assms(2) show ?thesis by (simp split: sum.split)
next
  case BotStarts
  have "dense (processBotStart s)"
    using assms(2) by (elim dense_fields) (simp_all add: processBotStart_def split: option.split)
  with BotStarts show ?thesis by simp
next
  case (SetsConversationId c)
  have "dense (setConversationId c s)"
    using assms(2) by (elim dense_fields) (simp_all add: setConversationId_def)
  with SetsConversationId show ?thesis by simp
next
  case (SetsInputVariables v)
  have "dense (setInputVariables v s)"
    using assms(2) by (elim dense_fields) (simp_all add: setInputVariables_def)
  with SetsInputVariables show ?thesis by simp
next
  case (SetsIsAudioPlaying b)
  have "dense (setIsAudioPlaying b s)"
    using assms(2) by (elim dense_fields) (simp_all add: setIsAudioPlaying_def)
  with SetsIsAudioPlaying show ?thesis by simp
next
  case ChecksIfBotExists
  have "dense (checkIfBotExists s)"
    using assms(2) by (elim dense_fields) (simp_all add: checkIfBotExists_def)
  with ChecksIfBotExists show ?thesis by simp
next
  case AsrCompletes
  have "dense (s\<lparr>asrService := map_option complete (asrService s)\<rparr>)"
    using assms(2) by (elim dense_fields) simp_all
  with AsrCompletes show ?thesis by simp
next
  case DtmfCompletes
  have "dense (s\<lparr>dtmfService := map_option complete (dtmfService s)\<rparr>)"
    using assms(2) by (elim dense_fields) simp_all
  with DtmfCompletes show ?thesis by simp
qed (use assms(2) in \<open>simp_all add: asr_on_error_def dtmf_on_error_def
      dense_sendBargeIn dense_sendClosed dense_sendDisconnect dense_initialResponse_then
      dense_asr_response_then dense_dtmf_response_then\<close>)

lemma dense_run:
  assumes "\<forall>t h m s. getHandler t = Some h \<longrightarrow> dense s \<longrightarrow> dense (h m s)"
  shows "dense s \<Longrightarrow> dense (run getHandler es s)"
  by (induction es arbitrary: s) (simp_all add: dense_fire [OF assms])

lemma dense_new: "dense (new_Session (new_WebSocket c) sid u)"
  by (simp add: dense_def outbound_seqs_def new_Session_def new_WebSocket_def)

text \<open>
  C2. \<open>createMessage\<close> stamps the message with the session's \<open>clientSessionId\<close> as id,
  version \<open>"2"\<close>, the incremented \<open>lastServerSequenceNumber\<close> as seq, and the current
  \<open>lastClientSequenceNumber\<close> as clientseq. Each of the four methods that send a message
  sends the one that \<open>createMessage\<close> built. Over any run of a new session, whatever the
  events and their order, the sequence numbers of the messages sent are 1, 2, 3, ... up to
  the session's counter: each is one more than the one before. The message handlers are
  not part of the sources: the run is over any registry whose handlers keep that property.
\<close>

theorem createMessage_stamps:
  assumes "\<forall>t h m s. getHandler t = Some h \<longrightarrow> dense s \<longrightarrow> dense (h m s)"
  shows "createMessage type params s =
           (\<lparr>m_id = clientSessionId s, m_version = ''2'',
             m_seq = lastServerSequenceNumber s + 1,
             m_clientseq = lastClientSequenceNumber s,
             m_type = type, m_parameters = params\<rparr>,
            s\<lparr>lastServerSequenceNumber := lastServerSequenceNumber s + 1\<rparr>) \<and>
         sent (ws (sendBargeIn s)) = sent (ws s) @
           [Text (fst (createMessage ''event'' (EventParameters [EventEntityBargeIn]) s))] \<and>
         sent (ws (sendTurnResponse d t c s)) = sent (ws s) @
           [Text (fst (createMessage ''event''
              (EventParameters [EventEntityBotTurnResponse d t c]) s))] \<and>
         sent (ws (sendDisconnect r i v s)) = sent (ws s) @
           [Text (fst (createMessage ''disconnect'' (DisconnectParameters r i v) s))] \<and>
         sent (ws (sendClosed s)) = sent (ws s) @
           [Text (fst (createMessage ''closed'' ClosedParameters s))] \<and>
         outbound_seqs (run getHandler es (new_Session (new_WebSocket thr) sid u)) =
           [1..lastServerSequenceNumber
                 (run getHandler es (new_Session (new_WebSocket thr) sid u))]"
proof -
  have "dense (run getHandler es (new_Session (new_WebSocket thr) sid u))"
    using assms dense_new by (rule dense_run)
  then have "outbound_seqs (run getHandler es (new_Session (new_WebSocket thr) sid u)) =
           [1..lastServerSequenceNumber
                 (run getHandler es (new_Session (new_WebSocket thr) sid u))]"
    by (simp add: dense_def)
  moreover have "createMessage type params s =
           (\<lparr>m_id = clientSessionId s, m_version = ''2'',
             m_seq = lastServerSequenceNumber s + 1,
             m_clientseq = lastClientSequenceNumber s,
             m_type = type, m_parameters = params\<rparr>,
            s\<lparr>lastServerSequenceNumber := lastServerSequenceNumber s + 1\<rparr>)" for type params
    by (simp add: createMessage_def Let_def)
  ultimately show ?thesis
    by (simp add: sendBargeIn_eq sendTurnResponse_eq sendDisconnect_eq sendClosed_eq)
qed

theorem createMessage_stamps_witness:
  "outbound_seqs
     (run example_registry
        [TextMessage (Message \<lparr>c_id = ''id'', c_seq = 1, c_serverseq = 0, c_type = ''close''\<rparr>),
         SendsBargeIn,
         TextMessage (Message \<lparr>c_id = ''id'', c_seq = 7, c_serverseq = 0, c_type = ''close''\<rparr>)]
        (new_Session (new_WebSocket False) ''id'' ''u'')) = [1, 2, 3]"
proof -
  let ?es = "[TextMessage (Message \<lparr>c_id = ''id'', c_seq = 1, c_serverseq = 0, c_type = ''close''\<rparr>),
         SendsBargeIn,
         TextMessage (Message \<lparr>c_id = ''id'', c_seq = 7, c_serverseq = 0, c_type = ''close''\<rparr>)]"
  let ?s = "new_Session (new_WebSocket False) ''id'' ''u''"
  have h: "\<forall>t h m s. example_registry t = Some h \<longrightarrow> dense s \<longrightarrow> dense (h m s)"
    by (auto simp: example_registry_def dense_sendClosed split: if_splits)
  have "outbound_seqs (run example_registry ?es ?s)
          = [1..lastServerSequenceNumber (run example_registry ?es ?s)]"
    using createMessage_stamps [OF h, of _ _ ?s _ _ _ _ _ _ ?es False "''id''" "''u''"] by blast
  moreover have "lastServerSequenceNumber (run example_registry ?es ?s) = 3"
    by (simp add: processTextMessage_def example_registry_def new_Session_def
        new_WebSocket_def sendClosed_eq sendBargeIn_eq sendDisconnect_eq Let_def)
  moreover have "[1..3::int] = [1, 2, 3]"
    by (simp add: upto.simps)
  ultimately show ?thesis by simp
qed

section \<open>Validation of inbound messages\<close>

text \<open>Facts used to evaluate concrete runs.\<close>

lemma sendAudio_small:
  "length b \<le> 64000 \<Longrightarrow> sendAudio b s = s\<lparr>ws := (ws s)\<lparr>sent := sent (ws s) @ [Binary b]\<rparr>\<rparr>"
  by (simp add: sendAudio_def ws_send_def MAXIMUM_BINARY_MESSAGE_SIZE_def)

lemmas run_simps =
  processTextMessage_def example_registry_def envelope_def fresh_def
  new_Session_def new_WebSocket_def sendDisconnect_eq sendTurnResponse_eq sendClosed_eq
  sendAudio_small Let_def checkIfBotExists_def processBinaryMessage_def processDTMF_def
  asr_on_final_transcript_def dtmf_on_final_digits_def bot_request_def
  asr_response_then_def dtmf_response_then_def example_reply_def
  new_engine_def feed_def complete_def new_BotResource_def

text \<open>
  C1, as stated, fails. A message with a wrong sequence number is answered with the error
  disconnect and reaches no handler, but input is still processed afterwards: the next
  message, with the sequence number the session expects, passes the checks and is handed
  to its handler, which here sends \<open>closed\<close>. \<open>processTextMessage\<close> tests \<open>closed\<close>, not
  \<open>disconnecting\<close>.
\<close>

theorem processTextMessage_continues_after_disconnect:
  "processTextMessage example_registry (Message (envelope 5 0)) fresh =
     Inr (sendDisconnect ''error'' ''Invalid client sequence number.'' [] fresh, None) \<and>
   processTextMessage example_registry (Message (envelope 1 0))
       (sendDisconnect ''error'' ''Invalid client sequence number.'' [] fresh) =
     Inr (sendClosed ((sendDisconnect ''error'' ''Invalid client sequence number.'' [] fresh)
            \<lparr>lastClientSequenceNumber := 1\<rparr>), Some (envelope 1 0))"
  by (simp add: processTextMessage_def example_registry_def envelope_def fresh_def
      new_Session_def new_WebSocket_def sendDisconnect_eq Let_def)

text \<open>
  C1, amended. On a session that is not closed, a message whose seq is not
  \<open>lastClientSequenceNumber + 1\<close> makes the session send exactly one frame, a disconnect
  message with reason \<open>error\<close>; no handler is invoked for the message; the counter of
  client messages stays; \<open>disconnecting\<close> is set, and from then on \<open>processBinaryMessage\<close>
  and \<open>processDTMF\<close> drop their input. (Later text messages are still validated and
  dispatched.)
\<close>

theorem processTextMessage_bad_seq:
  assumes "\<not> closed s" and "c_seq m \<noteq> lastClientSequenceNumber s + 1"
  shows "\<exists>s'. processTextMessage getHandler (Message m) s = Inr (s', None) \<and>
           sent (ws s') = sent (ws s) @
             [Text \<lparr>m_id = clientSessionId s, m_version = ''2'',
                     m_seq = lastServerSequenceNumber s + 1,
                     m_clientseq = lastClientSequenceNumber s, m_type = ''disconnect'',
                     m_parameters = DisconnectParameters ''error''
                       ''Invalid client sequence number.'' []\<rparr>] \<and>
           disconnecting s' \<and>
           lastClientSequenceNumber s' = lastClientSequenceNumber s \<and>
           processBinaryMessage data s' = s' \<and>
           processDTMF digit s' = s'"
  using assms
  by (simp add: processTextMessage_def sendDisconnect_eq processBinaryMessage_def
      processDTMF_def)

theorem processTextMessage_bad_seq_witness:
  "\<exists>s'. processTextMessage example_registry (Message (envelope 5 0)) fresh = Inr (s', None) \<and>
         sent (ws s') =
           [Text \<lparr>m_id = ''id'', m_version = ''2'', m_seq = 1, m_clientseq = 0,
                   m_type = ''disconnect'',
                   m_parameters = DisconnectParameters ''error''
                     ''Invalid client sequence number.'' []\<rparr>] \<and>
         disconnecting s' \<and> processBinaryMessage [0] s' = s' \<and> processDTMF ''1'' s' = s'"
proof -
  have a: "\<not> closed fresh"
    by (simp add: fresh_def new_Session_def)
  have b: "c_seq (envelope 5 0) \<noteq> lastClientSequenceNumber fresh + 1"
    by (simp add: fresh_def new_Session_def envelope_def)
  have f: "sent (ws fresh) = []" "clientSessionId fresh = ''id''"
    "lastServerSequenceNumber fresh = 0" "lastClientSequenceNumber fresh = 0"
    by (simp_all add: fresh_def new_Session_def new_WebSocket_def)
  from processTextMessage_bad_seq [OF a b, of example_registry "[0]" "''1''"]
  show ?thesis unfolding f by auto
qed

text \<open>
  C9, as stated, fails. A message with the expected seq and a serverseq that the session
  has not issued is rejected, and \<open>lastClientSequenceNumber\<close> has been advanced from 0
  to 1 all the same: the assignment stands between the first check and the second.
\<close>

theorem lastClient_advanced_before_later_checks:
  "lastServerSequenceNumber fresh < c_serverseq (envelope 1 5) \<and>
   processTextMessage example_registry (Message (envelope 1 5)) fresh =
     Inr (sendDisconnect ''error'' ''Invalid server sequence number.'' []
            (fresh\<lparr>lastClientSequenceNumber := 1\<rparr>), None) \<and>
   lastClientSequenceNumber fresh = 0 \<and>
   lastClientSequenceNumber (sendDisconnect ''error'' ''Invalid server sequence number.'' []
            (fresh\<lparr>lastClientSequenceNumber := 1\<rparr>)) = 1"
  by (simp add: processTextMessage_def example_registry_def envelope_def fresh_def
      new_Session_def new_WebSocket_def sendDisconnect_eq Let_def)

text \<open>
  C9, amended. On a session that is not closed, \<open>processTextMessage\<close> returns, and
  \<^item> if seq is not \<open>lastClientSequenceNumber + 1\<close>, no handler is invoked,
    \<open>lastClientSequenceNumber\<close> is unchanged and one error disconnect is sent;
  \<^item> if seq is right and serverseq is greater than \<open>lastServerSequenceNumber\<close> or the id
    is not \<open>clientSessionId\<close>, no handler is invoked, \<open>lastClientSequenceNumber\<close> has
    been advanced to seq, and one error disconnect is sent, which acknowledges seq;
  \<^item> if all three checks pass, \<open>lastClientSequenceNumber\<close> is advanced to seq and the
    message goes to the handler of its type, if the registry has one.
  The error disconnect increments \<open>lastServerSequenceNumber\<close> by one.
\<close>

theorem processTextMessage_validation:
  assumes "\<not> closed s"
  shows "\<exists>s' routed. processTextMessage getHandler (Message m) s = Inr (s', routed) \<and>
     (c_seq m \<noteq> lastClientSequenceNumber s + 1 \<longrightarrow>
        routed = None \<and> lastClientSequenceNumber s' = lastClientSequenceNumber s \<and>
        error_disconnect s s') \<and>
     (c_seq m = lastClientSequenceNumber s + 1 \<and>
      (lastServerSequenceNumber s < c_serverseq m \<or> c_id m \<noteq> clientSessionId s) \<longrightarrow>
        routed = None \<and> lastClientSequenceNumber s' = c_seq m \<and>
        error_disconnect s s') \<and>
     (c_seq m = lastClientSequenceNumber s + 1 \<and>
      c_serverseq m \<le> lastServerSequenceNumber s \<and> c_id m = clientSessionId s \<longrightarrow>
        (case getHandler (c_type m) of
           None \<Rightarrow> routed = None \<and> s' = s\<lparr>lastClientSequenceNumber := c_seq m\<rparr>
         | Some handler \<Rightarrow>
             routed = Some m \<and> s' = handler m (s\<lparr>lastClientSequenceNumber := c_seq m\<rparr>)))"
  using assms
  by (auto simp: processTextMessage_def sendDisconnect_eq error_disconnect_def Let_def
      split: option.split)

theorem processTextMessage_validation_witness:
  "\<exists>s'. processTextMessage example_registry (Message (envelope 1 5)) fresh = Inr (s', None) \<and>
     lastClientSequenceNumber s' = 1 \<and> error_disconnect fresh s'"
proof -
  have a: "\<not> closed fresh"
    by (simp add: fresh_def new_Session_def)
  have b: "c_seq (envelope 1 5) = lastClientSequenceNumber fresh + 1"
    "lastServerSequenceNumber fresh < c_serverseq (envelope 1 5)"
    by (simp_all add: fresh_def new_Session_def envelope_def)
  show ?thesis
    using processTextMessage_validation [OF a, of example_registry "envelope 1 5"] b
    by (auto simp: envelope_def)
qed

section \<open>Capture arbitration\<close>

text \<open>
  C10. While \<open>isCapturingDTMF\<close> is set, the callbacks of a speech engine do nothing: the
  error callback sends no disconnect and the final-transcript callback makes no request
  to the bot and sends nothing; both return the session as it is.
\<close>

theorem asr_callbacks_while_capturing_DTMF:
  assumes "isCapturingDTMF s"
  shows "asr_on_error s = s \<and> asr_on_final_transcript t s = Inr s"
  using assms by (simp add: asr_on_error_def asr_on_final_transcript_def)

theorem asr_callbacks_while_capturing_DTMF_witness:
  "isCapturingDTMF (processDTMF ''1'' started) \<and>
   asr_on_error (processDTMF ''1'' started) = processDTMF ''1'' started \<and>
   asr_on_final_transcript ''hello'' (processDTMF ''1'' started)
     = Inr (processDTMF ''1'' started)"
proof -
  have h: "isCapturingDTMF (processDTMF ''1'' started)"
    by (simp add: processDTMF_def started_def fresh_def checkIfBotExists_def new_Session_def Let_def)
  show ?thesis
    using h asr_callbacks_while_capturing_DTMF [OF h, of "''hello''"] by simp
qed

text \<open>
  C4, as stated, fails. With a digit capture in progress and playback started, an audio
  frame leaves the digit engine in place and capturing: \<open>processBinaryMessage\<close> returns at
  the test of \<open>isCapturingDTMF\<close>, before the test of \<open>isAudioPlaying\<close>.
\<close>

theorem playback_keeps_digit_engine:
  "isAudioPlaying (setIsAudioPlaying True (processDTMF ''1'' started)) \<and>
   dtmfService (processBinaryMessage [0] (setIsAudioPlaying True (processDTMF ''1'' started)))
     = Some (feed ''1'' new_engine) \<and>
   live (dtmfService (processBinaryMessage [0] (setIsAudioPlaying True (processDTMF ''1'' started))))"
  by (simp add: processBinaryMessage_def setIsAudioPlaying_def processDTMF_def started_def fresh_def
      checkIfBotExists_def new_Session_def Let_def live_def feed_def new_engine_def)

text \<open>
  C4, amended. While \<open>isAudioPlaying\<close> is set, an audio frame and a digit reach no
  engine: after \<open>processBinaryMessage\<close> or \<open>processDTMF\<close> each engine field holds what it
  held or null. \<open>processDTMF\<close> sets both engines to null unless the session is
  disconnecting, closed or without a bot; \<open>processBinaryMessage\<close> does so unless the
  session is disconnecting, closed, without a bot or capturing digits. In the excepted
  cases the session is unchanged.
\<close>

theorem playback_drops_input:
  assumes "isAudioPlaying s"
  shows "processBinaryMessage data s =
           (if disconnecting s \<or> closed s \<or> selectedBot s = None \<or> isCapturingDTMF s
            then s else s\<lparr>asrService := None, dtmfService := None\<rparr>) \<and>
         processDTMF digit s =
           (if disconnecting s \<or> closed s \<or> selectedBot s = None
            then s else s\<lparr>asrService := None, dtmfService := None\<rparr>) \<and>
         asrService (processBinaryMessage data s) \<in> {None, asrService s} \<and>
         dtmfService (processBinaryMessage data s) \<in> {None, dtmfService s} \<and>
         asrService (processDTMF digit s) \<in> {None, asrService s} \<and>
         dtmfService (processDTMF digit s) \<in> {None, dtmfService s}"
  using assms by (simp add: processBinaryMessage_def processDTMF_def)

theorem playback_drops_input_witness:
  "isAudioPlaying (setIsAudioPlaying True (processBinaryMessage [0] started)) \<and>
   asrService (setIsAudioPlaying True (processBinaryMessage [0] started)) = Some (feed [0] new_engine) \<and>
   asrService (processBinaryMessage [1] (setIsAudioPlaying True (processBinaryMessage [0] started))) = None \<and>
   asrService (processDTMF ''5'' (setIsAudioPlaying True (processBinaryMessage [0] started))) = None"
proof -
  let ?s = "setIsAudioPlaying True (processBinaryMessage [0] started)"
  have h: "isAudioPlaying ?s" by (simp add: setIsAudioPlaying_def)
  have f: "\<not> disconnecting ?s" "\<not> closed ?s" "selectedBot ?s \<noteq> None" "\<not> isCapturingDTMF ?s"
    "asrService ?s = Some (feed [0] new_engine)"
    by (simp_all add: setIsAudioPlaying_def processBinaryMessage_def started_def fresh_def
        checkIfBotExists_def new_Session_def Let_def)
  show ?thesis
    using h f playback_drops_input [OF h, of "[1]" "''5''"] by simp
qed

text \<open>
  C3. The run \<open>race_run\<close> ends with a speech engine and a digit engine both capturing.
  The reply to the first digit capture resets \<open>isCapturingDTMF\<close> although a second digit
  engine has started, and the next audio frame creates and feeds a speech engine.
\<close>

theorem race_both_live:
  "live (asrService (run example_registry race_run fresh)) \<and>
   live (dtmfService (run example_registry race_run fresh)) \<and>
   \<not> isCapturingDTMF (run example_registry race_run fresh)"
  by (simp add: race_run_def run_simps live_def)

section \<open>Replies of the bot\<close>

lemma dtmf_response_then_asr:
  "dtmf_response_then r s = (asr_response_then r s)\<lparr>isCapturingDTMF := False\<rparr>"
  by (simp add: dtmf_response_then_def asr_response_then_def Let_def)

lemma asr_response_then_sent:
  assumes "case audioBytes r of None \<Rightarrow> au = []
           | Some b \<Rightarrow> \<forall>s. sendAudio b s = s\<lparr>ws := (ws s)\<lparr>sent := sent (ws s) @ au\<rparr>\<rparr>"
  shows "sent (ws (asr_response_then r s)) = sent (ws s) @
     (if text_str r \<noteq> []
      then [Text \<lparr>m_id = clientSessionId s, m_version = ''2'',
                  m_seq = lastServerSequenceNumber s + 1,
                  m_clientseq = lastClientSequenceNumber s, m_type = ''event'',
                  m_parameters = EventParameters
                    [EventEntityBotTurnResponse (disposition r) (Some (text_str r))
                       (confidence r)]\<rparr>]
      else []) @ au @
     (if endSession r = Some True
      then [Text \<lparr>m_id = clientSessionId s, m_version = ''2'',
                  m_seq = lastServerSequenceNumber s + (if text_str r \<noteq> [] then 2 else 1),
                  m_clientseq = lastClientSequenceNumber s, m_type = ''disconnect'',
                  m_parameters = DisconnectParameters ''completed'' [] []\<rparr>]
      else [])"
  using assms
  by (cases "audioBytes r")
     (simp_all add: asr_response_then_def Let_def sendTurnResponse_eq sendDisconnect_eq)

text \<open>
  C6. The callback of the bot's reply, after a final transcript and after final digits
  alike, sends in this order and nothing else: the \<open>bot_turn_response\<close> event with the
  disposition, text and confidence if the reply has a text; then the audio, as one or more
  binary frames whose concatenation is \<open>audioBytes\<close>, if the reply has audio; then a
  disconnect with reason \<open>completed\<close> if \<open>endSession\<close> is set. The two messages carry
  consecutive sequence numbers.
\<close>

theorem turn_emission_order:
  "\<exists>ev au dc.
     sent (ws (asr_response_then r s)) = sent (ws s) @ ev @ au @ dc \<and>
     sent (ws (dtmf_response_then r s)) = sent (ws s) @ ev @ au @ dc \<and>
     ev = (if text_str r \<noteq> []
           then [Text \<lparr>m_id = clientSessionId s, m_version = ''2'',
                       m_seq = lastServerSequenceNumber s + 1,
                       m_clientseq = lastClientSequenceNumber s, m_type = ''event'',
                       m_parameters = EventParameters
                         [EventEntityBotTurnResponse (disposition r) (Some (text_str r))
                            (confidence r)]\<rparr>]
           else []) \<and>
     (case audioBytes r of
        None \<Rightarrow> au = []
      | Some b \<Rightarrow> \<exists>fs. fs \<noteq> [] \<and> concat fs = b \<and> au = map Binary fs) \<and>
     dc = (if endSession r = Some True
           then [Text \<lparr>m_id = clientSessionId s, m_version = ''2'',
                       m_seq = lastServerSequenceNumber s + (if text_str r \<noteq> [] then 2 else 1),
                       m_clientseq = lastClientSequenceNumber s, m_type = ''disconnect'',
                       m_parameters = DisconnectParameters ''completed'' [] []\<rparr>]
           else [])"
proof -
  obtain au where
    au: "case audioBytes r of None \<Rightarrow> au = []
         | Some b \<Rightarrow> \<exists>fs. fs \<noteq> [] \<and> concat fs = b \<and> au = map Binary fs"
    and snd: "case audioBytes r of None \<Rightarrow> au = []
         | Some b \<Rightarrow> \<forall>s. sendAudio b s = s\<lparr>ws := (ws s)\<lparr>sent := sent (ws s) @ au\<rparr>\<rparr>"
  proof (cases "audioBytes r")
    case None
    then show ?thesis using that [of "[]"] by simp
  next
    case (Some b)
    obtain fs where "fs \<noteq> []" "concat fs = b"
      "\<forall>s. sendAudio b s = s\<lparr>ws := (ws s)\<lparr>sent := sent (ws s) @ map Binary fs\<rparr>\<rparr>"
      using sendAudio_frames [of b] by blast
    with Some show ?thesis using that [of "map Binary fs"] by auto
  qed
  note a = asr_response_then_sent [OF snd, of s]
  have d: "sent (ws (dtmf_response_then r s)) = sent (ws (asr_response_then r s))"
    by (simp add: dtmf_response_then_asr)
  show ?thesis
    apply (rule exI, rule exI [where x = au], rule exI)
    apply (intro conjI)
        apply (rule a)
       apply (simp only: d a)
      apply (rule refl)
     apply (rule au)
    apply (rule refl)
    done
qed

theorem turn_emission_order_witness:
  "\<exists>au. sent (ws (asr_response_then final_reply started)) =
     [Text \<lparr>m_id = ''id'', m_version = ''2'', m_seq = 1, m_clientseq = 0, m_type = ''event'',
             m_parameters = EventParameters
               [EventEntityBotTurnResponse ''match'' (Some ''hello'') (Some 1)]\<rparr>] @ au @
     [Text \<lparr>m_id = ''id'', m_version = ''2'', m_seq = 2, m_clientseq = 0,
             m_type = ''disconnect'',
             m_parameters = DisconnectParameters ''completed'' [] []\<rparr>]"
  using turn_emission_order [of final_reply started]
  by (auto simp: final_reply_def started_def fresh_def checkIfBotExists_def
      new_Session_def new_WebSocket_def)

text \<open>
  C7, as stated, fails. In \<open>stale_run\<close> the bot is asked for a reply, then the session
  disconnects with an error. The reply that resolves afterwards is not discarded: its
  event and its audio are sent after the disconnect.
\<close>

theorem stale_reply_is_sent:
  "disconnecting (run example_registry stale_run fresh) \<and>
   selectedBot (run example_registry stale_run fresh) =
     Some \<lparr>requests = [GetBotResponse ''hi'']\<rparr> \<and>
   sent (ws (asr_response_then example_reply (run example_registry stale_run fresh))) =
     sent (ws (run example_registry stale_run fresh)) @
       [Text \<lparr>m_id = ''id'', m_version = ''2'', m_seq = 2, m_clientseq = 0,
               m_type = ''event'',
               m_parameters = EventParameters
                 [EventEntityBotTurnResponse ''match'' (Some ''hello'') (Some 1)]\<rparr>,
        Binary [1, 2, 3]]"
  by (simp add: stale_run_def run_simps)

lemma response_then_flags:
  "sent (ws (asr_response_then r (s\<lparr>disconnecting := dc, closed := cl\<rparr>)))
     = sent (ws (asr_response_then r s))"
proof -
  obtain au where
    "case audioBytes r of None \<Rightarrow> au = []
     | Some b \<Rightarrow> \<forall>s. sendAudio b s = s\<lparr>ws := (ws s)\<lparr>sent := sent (ws s) @ au\<rparr>\<rparr>"
  proof (cases "audioBytes r")
    case None
    then show ?thesis using that [of "[]"] by simp
  next
    case (Some b)
    then show ?thesis using that sendAudio_frames [of b] by auto
  qed
  then show ?thesis
    by (simp add: asr_response_then_sent)
qed

text \<open>
  C7, amended. Once \<open>disconnecting\<close> or \<open>closed\<close> is set, an inbound audio frame and an
  inbound digit are dropped: the session is unchanged and nothing is sent. The callbacks
  of a bot reply and of an engine error do not look at the two flags: what they send is
  the same whatever the flags are.
\<close>

theorem stale_input_dropped:
  "(disconnecting s \<or> closed s \<longrightarrow>
      processBinaryMessage data s = s \<and> processDTMF digit s = s) \<and>
   sent (ws (asr_response_then r (s\<lparr>disconnecting := dc, closed := cl\<rparr>)))
     = sent (ws (asr_response_then r s)) \<and>
   sent (ws (dtmf_response_then r (s\<lparr>disconnecting := dc, closed := cl\<rparr>)))
     = sent (ws (dtmf_response_then r s)) \<and>
   sent (ws (dtmf_on_error (s\<lparr>disconnecting := dc, closed := cl\<rparr>)))
     = sent (ws (dtmf_on_error s)) \<and>
   sent (ws (asr_on_error (s\<lparr>disconnecting := dc, closed := cl\<rparr>)))
     = sent (ws (asr_on_error s))"
  by (simp add: response_then_flags dtmf_response_then_asr processBinaryMessage_def
      processDTMF_def dtmf_on_error_def asr_on_error_def sendDisconnect_eq)

theorem stale_input_dropped_witness:
  "disconnecting (run example_registry stale_run fresh) \<and>
   processBinaryMessage [7] (run example_registry stale_run fresh)
     = run example_registry stale_run fresh \<and>
   processDTMF ''5'' (run example_registry stale_run fresh)
     = run example_registry stale_run fresh"
proof -
  have d: "disconnecting (run example_registry stale_run fresh)"
    by (simp add: stale_run_def run_simps)
  show ?thesis
    using d stale_input_dropped [of "run example_registry stale_run fresh" "[7]" "''5''"]
    by simp
qed

end
